theory Spec2Isabelle
  imports Main
begin

section \<open>Configuration loading of ibmcloud-volume-interface (config/config.go)\<close>

text \<open>
  The package resolves the path of a TOML configuration file from the process
  environment, decodes the file into a \<open>Config\<close> record and overlays environment
  variables on the same record. Go strings are byte strings (\<open>string\<close>); a Go pointer
  to a struct is an \<open>option\<close> (\<open>None\<close> for \<open>nil\<close>); a Go \<open>error\<close> result is an
  \<open>error option\<close> (\<open>None\<close> for \<open>nil\<close>).
\<close>

subsection \<open>The process environment\<close>

text \<open>
  The environment is the list of name/value pairs of the process, as \<open>os.Environ\<close>
  shows it. \<open>os.LookupEnv\<close> tells whether a variable is set; \<open>os.Getenv\<close> returns
  the empty string for a variable that is not set.
\<close>

type_synonym environment = "(string \<times> string) list"

definition LookupEnv :: "environment \<Rightarrow> string \<Rightarrow> string option" where
  "LookupEnv env key = map_of env key"

definition Getenv :: "environment \<Rightarrow> string \<Rightarrow> string" where
  "Getenv env key = (case LookupEnv env key of None \<Rightarrow> [] | Some v \<Rightarrow> v)"

text \<open>
  \<open>strings.ToUpper\<close> on the ASCII letters; bytes outside \<open>a..z\<close> are kept. The
  package only passes the constant names \<open>GOPATH\<close> and \<open>SECRET_CONFIG_PATH\<close>.
\<close>

definition upper_byte :: "char \<Rightarrow> char" where
  "upper_byte c =
     (let n = (of_char c :: nat)
      in if 97 \<le> n \<and> n \<le> 122 then char_of (n - 32) else c)"

definition ToUpper :: "string \<Rightarrow> string" where
  "ToUpper s = map upper_byte s"

subsection \<open>Joining paths: \<open>filepath.Join\<close> with the separator \<open>/\<close>\<close>

text \<open>
  \<open>filepath.Join\<close> drops the leading empty elements, joins what follows the first
  non-empty element with \<open>/\<close> and cleans the result; with no non-empty element it
  returns the empty string. \<open>filepath.Clean\<close> works element by element: an empty
  element and \<open>.\<close> are dropped, \<open>..\<close> removes the element before it (it is dropped at
  the root, and kept at the start of a relative path), and an empty result is \<open>.\<close>.
\<close>

fun split_slash :: "string \<Rightarrow> string \<Rightarrow> string list" where
  "split_slash [] cur = [rev cur]"
| "split_slash (c # cs) cur =
     (if c = CHR ''/'' then rev cur # split_slash cs [] else split_slash cs (c # cur))"

fun join_slash :: "string list \<Rightarrow> string" where
  "join_slash [] = []"
| "join_slash [e] = e"
| "join_slash (e # es) = e @ CHR ''/'' # join_slash es"

text \<open>The elements written so far are kept in reverse, the last one first.\<close>

definition clean_elem :: "bool \<Rightarrow> string list \<Rightarrow> string \<Rightarrow> string list" where
  "clean_elem rooted out e =
     (if e = [] \<or> e = ''.'' then out
      else if e = ''..'' then
        (case out of
           [] \<Rightarrow> if rooted then [] else [''..'']
         | x # xs \<Rightarrow> if x = ''..'' then ''..'' # out else xs)
      else e # out)"

definition Clean :: "string \<Rightarrow> string" where
  "Clean path =
     (case path of
        [] \<Rightarrow> ''.''
      | c # _ \<Rightarrow>
          (let rooted = (c = CHR ''/'');
               out = join_slash (rev (foldl (clean_elem rooted) [] (split_slash path [])))
           in if rooted then CHR ''/'' # out
              else if out = [] then ''.'' else out))"

fun Join :: "string list \<Rightarrow> string" where
  "Join [] = []"
| "Join (e # es) = (if e = [] then Join es else Clean (join_slash (e # es)))"

subsection \<open>Resolving the configuration path\<close>

definition getEnv :: "environment \<Rightarrow> string \<Rightarrow> string" where
  "getEnv env key = Getenv env (ToUpper key)"

definition GetGoPath :: "environment \<Rightarrow> string" where
  "GetGoPath env =
     (let goPath = getEnv env ''GOPATH''
      in if goPath \<noteq> [] then goPath else [])"

definition GetEtcPath :: "environment \<Rightarrow> string" where
  "GetEtcPath env =
     (let goPath = GetGoPath env;
          srcPath = Join [''src'', ''github.com'', ''IBM'', ''ibmcloud-volume-interface'']
      in Join [goPath, srcPath, ''etc''])"

definition GetDefaultConfPath :: "environment \<Rightarrow> string" where
  "GetDefaultConfPath env = Join [GetEtcPath env, ''libconfig.toml'']"

definition GetConfPath :: "environment \<Rightarrow> string" where
  "GetConfPath env =
     (let confPath = getEnv env ''SECRET_CONFIG_PATH''
      in if confPath \<noteq> [] then Join [confPath, ''libconfig.toml'']
         else GetDefaultConfPath env)"

definition GetConfPathDir :: "environment \<Rightarrow> string" where
  "GetConfPathDir env =
     (let confPath = getEnv env ''SECRET_CONFIG_PATH''
      in if confPath \<noteq> [] then confPath else GetEtcPath env)"

subsection \<open>The configuration records\<close>

text \<open>
  One record for each struct of the package, the fields in the order of the source.
  A Go \<open>int\<close> is an \<open>int\<close>, a Go \<open>bool\<close> a \<open>bool\<close>. Three structs declare fields of
  the same name; the later ones carry the struct's name in front here:
  \<open>VPC_Enabled\<close>, \<open>VPC_IamClientID\<close>, \<open>VPC_IamClientSecret\<close> and \<open>VPC_Encryption\<close>
  of \<open>VPCProviderConfig\<close>, and \<open>IKS_Enabled\<close> of \<open>IKSConfig\<close>.
\<close>

record ServerConfig =
  DebugTrace :: bool

record BluemixConfig =
  IamURL :: string
  IamClientID :: string
  IamClientSecret :: string
  IamAPIKey :: string
  RefreshToken :: string
  APIEndpointURL :: string
  PrivateAPIRoute :: string
  Encryption :: bool
  CSRFToken :: string

record SoftlayerConfig =
  SoftlayerBlockEnabled :: bool
  SoftlayerBlockProviderName :: string
  SoftlayerFileEnabled :: bool
  SoftlayerFileProviderName :: string
  SoftlayerUsername :: string
  SoftlayerAPIKey :: string
  SoftlayerEndpointURL :: string
  SoftlayerDataCenter :: string
  SoftlayerTimeout :: string
  SoftlayerVolProvisionTimeout :: string
  SoftlayerRetryInterval :: string
  SoftlayerJWTKID :: string
  SoftlayerJWTTTL :: int
  SoftlayerJWTValidFrom :: int
  SoftlayerIMSEndpointURL :: string
  SoftlayerAPIDebug :: bool

record VPCProviderConfig =
  VPC_Enabled :: bool
  VPC_IamClientID :: string
  VPC_IamClientSecret :: string
  VPCTypeEnabled :: string
  VPCBlockProviderType :: string
  VPCProviderType :: string
  EndpointURL :: string
  PrivateEndpointURL :: string
  TokenExchangeURL :: string
  APIKey :: string
  ResourceGroupID :: string
  VPCAPIGeneration :: int
  APIVersion :: string
  G2EndpointURL :: string
  G2EndpointPrivateURL :: string
  G2TokenExchangeURL :: string
  G2APIKey :: string
  G2ResourceGroupID :: string
  G2VPCAPIGeneration :: int
  G2APIVersion :: string
  VPC_Encryption :: bool
  VPCTimeout :: string
  MaxRetryAttempt :: int
  MaxRetryGap :: int
  IKSTokenExchangePrivateURL :: string
  IsIKS :: bool

record IKSConfig =
  IKS_Enabled :: bool
  IKSBlockProviderName :: string

record APIConfig =
  PassthroughSecret :: string

record Config =
  Server :: "ServerConfig option"
  Bluemix :: "BluemixConfig option"
  Softlayer :: "SoftlayerConfig option"
  VPC :: "VPCProviderConfig option"
  IKS :: "IKSConfig option"
  API :: "APIConfig option"

text \<open>The zero value of each struct: \<open>false\<close>, \<open>0\<close>, the empty string, \<open>nil\<close>.\<close>

definition ServerConfig_zero :: ServerConfig where
  "ServerConfig_zero = \<lparr>DebugTrace = False\<rparr>"

definition BluemixConfig_zero :: BluemixConfig where
  "BluemixConfig_zero =
     \<lparr>IamURL = [], IamClientID = [], IamClientSecret = [], IamAPIKey = [],
      RefreshToken = [], APIEndpointURL = [], PrivateAPIRoute = [], Encryption = False,
      CSRFToken = []\<rparr>"

definition SoftlayerConfig_zero :: SoftlayerConfig where
  "SoftlayerConfig_zero =
     \<lparr>SoftlayerBlockEnabled = False, SoftlayerBlockProviderName = [],
      SoftlayerFileEnabled = False, SoftlayerFileProviderName = [],
      SoftlayerUsername = [], SoftlayerAPIKey = [], SoftlayerEndpointURL = [],
      SoftlayerDataCenter = [], SoftlayerTimeout = [], SoftlayerVolProvisionTimeout = [],
      SoftlayerRetryInterval = [], SoftlayerJWTKID = [], SoftlayerJWTTTL = 0,
      SoftlayerJWTValidFrom = 0, SoftlayerIMSEndpointURL = [], SoftlayerAPIDebug = False\<rparr>"

definition VPCProviderConfig_zero :: VPCProviderConfig where
  "VPCProviderConfig_zero =
     \<lparr>VPC_Enabled = False, VPC_IamClientID = [], VPC_IamClientSecret = [],
      VPCTypeEnabled = [], VPCBlockProviderType = [], VPCProviderType = [],
      EndpointURL = [], PrivateEndpointURL = [], TokenExchangeURL = [], APIKey = [],
      ResourceGroupID = [], VPCAPIGeneration = 0, APIVersion = [], G2EndpointURL = [],
      G2EndpointPrivateURL = [], G2TokenExchangeURL = [], G2APIKey = [],
      G2ResourceGroupID = [], G2VPCAPIGeneration = 0, G2APIVersion = [],
      VPC_Encryption = False, VPCTimeout = [], MaxRetryAttempt = 0, MaxRetryGap = 0,
      IKSTokenExchangePrivateURL = [], IsIKS = False\<rparr>"

definition IKSConfig_zero :: IKSConfig where
  "IKSConfig_zero = \<lparr>IKS_Enabled = False, IKSBlockProviderName = []\<rparr>"

definition APIConfig_zero :: APIConfig where
  "APIConfig_zero = \<lparr>PassthroughSecret = []\<rparr>"

definition Config_zero :: Config where
  "Config_zero =
     \<lparr>Server = None, Bluemix = None, Softlayer = None, VPC = None, IKS = None,
      API = None\<rparr>"

text \<open>
  The struct behind a pointer that a library is about to write through: the struct
  itself, or a fresh zero struct where the pointer is \<open>nil\<close>.
\<close>

definition or_zero :: "'a \<Rightarrow> 'a option \<Rightarrow> 'a" where
  "or_zero z p = (case p of None \<Rightarrow> z | Some r \<Rightarrow> r)"

subsection \<open>Errors and the log\<close>

text \<open>
  The two classes of error of the loader: a failure to decode the file (with the
  decoder's message) and a failure to convert an environment variable (with the
  variable's name and its value). The logger is the list of the lines written.
\<close>

datatype error = DecodeError string | OverlayError string string

datatype log_entry = LogInfo string string | LogError string error

subsection \<open>Decoding the file: \<open>toml.DecodeFile\<close>\<close>

text \<open>
  Modelled from the spec: \<open>toml.DecodeFile\<close> belongs to the library
  github.com/BurntSushi/toml, which is not among the sources of the package. The spec
  says that the file at the path is decoded into the record through fixed key names,
  and that a missing file, malformed syntax or a type mismatch is an error that leaves
  a zero-valued or partially populated record. A file is therefore unreadable,
  malformed, or a document; a document is what its tables write through the six
  pointers of \<open>Config\<close> (no table, or an update of the fields whose keys the table
  holds), with the message of a type mismatch if decoding met one. A path with no
  entry in the file system names no file.
\<close>

record toml_doc =
  server_table :: "(ServerConfig \<Rightarrow> ServerConfig) option"
  bluemix_table :: "(BluemixConfig \<Rightarrow> BluemixConfig) option"
  softlayer_table :: "(SoftlayerConfig \<Rightarrow> SoftlayerConfig) option"
  vpc_table :: "(VPCProviderConfig \<Rightarrow> VPCProviderConfig) option"
  iks_table :: "(IKSConfig \<Rightarrow> IKSConfig) option"
  api_table :: "(APIConfig \<Rightarrow> APIConfig) option"
  type_mismatch :: "string option"

datatype file_content = Unreadable | Malformed | Toml toml_doc

type_synonym filesystem = "(string \<times> file_content) list"

text \<open>
  A table is decoded into the struct behind the pointer, which is allocated when the
  pointer is \<open>nil\<close>; without a table the pointer is left as it is.
\<close>

definition decode_table :: "('a \<Rightarrow> 'a) option \<Rightarrow> 'a \<Rightarrow> 'a option \<Rightarrow> 'a option" where
  "decode_table t z p = (case t of None \<Rightarrow> p | Some upd \<Rightarrow> Some (upd (or_zero z p)))"

definition decode_doc :: "toml_doc \<Rightarrow> Config \<Rightarrow> Config" where
  "decode_doc d conf =
     \<lparr>Server = decode_table (server_table d) ServerConfig_zero (Server conf),
      Bluemix = decode_table (bluemix_table d) BluemixConfig_zero (Bluemix conf),
      Softlayer = decode_table (softlayer_table d) SoftlayerConfig_zero (Softlayer conf),
      VPC = decode_table (vpc_table d) VPCProviderConfig_zero (VPC conf),
      IKS = decode_table (iks_table d) IKSConfig_zero (IKS conf),
      API = decode_table (api_table d) APIConfig_zero (API conf)\<rparr>"

definition DecodeFile :: "filesystem \<Rightarrow> string \<Rightarrow> Config \<Rightarrow> Config \<times> error option" where
  "DecodeFile fs path conf =
     (case map_of fs path of
        None \<Rightarrow> (conf, Some (DecodeError ''no such file or directory''))
      | Some Unreadable \<Rightarrow> (conf, Some (DecodeError ''permission denied''))
      | Some Malformed \<Rightarrow> (conf, Some (DecodeError ''syntax error''))
      | Some (Toml d) \<Rightarrow> (decode_doc d conf, map_option DecodeError (type_mismatch d)))"

subsection \<open>Converting the value of an environment variable\<close>

text \<open>
  A tagged field is a \<open>bool\<close>, an \<open>int\<close> or a \<open>string\<close>. A boolean is one of the
  twelve spellings that \<open>strconv.ParseBool\<close> accepts. An integer is an optional sign
  and decimal digits, within 64 bits; a numeral that starts with \<open>0\<close> and goes on (a
  base prefix for the library) is not modelled and counts as a failure. A string is
  taken as it is.
\<close>

datatype kind = KBool | KInt | KString

datatype val = VBool bool | VInt int | VString string

definition ParseBool :: "string \<Rightarrow> bool option" where
  "ParseBool s =
     (if s \<in> set [''1'', ''t'', ''T'', ''TRUE'', ''true'', ''True''] then Some True
      else if s \<in> set [''0'', ''f'', ''F'', ''FALSE'', ''false'', ''False''] then Some False
      else None)"

definition digit_of :: "char \<Rightarrow> nat option" where
  "digit_of c =
     (let n = (of_char c :: nat)
      in if 48 \<le> n \<and> n \<le> 57 then Some (n - 48) else None)"

fun digits_value :: "string \<Rightarrow> nat \<Rightarrow> nat option" where
  "digits_value [] acc = Some acc"
| "digits_value (c # cs) acc =
     (case digit_of c of None \<Rightarrow> None | Some d \<Rightarrow> digits_value cs (10 * acc + d))"

definition ParseUint :: "string \<Rightarrow> nat option" where
  "ParseUint s =
     (case s of
        [] \<Rightarrow> None
      | c # cs \<Rightarrow> if c = CHR ''0'' \<and> cs \<noteq> [] then None else digits_value s 0)"

definition ParseInt :: "string \<Rightarrow> int option" where
  "ParseInt s =
     (case s of
        [] \<Rightarrow> None
      | c # cs \<Rightarrow>
          if c = CHR ''-'' then
            (case ParseUint cs of
               None \<Rightarrow> None
             | Some n \<Rightarrow> if n \<le> 9223372036854775808 then Some (- int n) else None)
          else
            (case ParseUint (if c = CHR ''+'' then cs else s) of
               None \<Rightarrow> None
             | Some n \<Rightarrow> if n < 9223372036854775808 then Some (int n) else None))"

definition convert :: "kind \<Rightarrow> string \<Rightarrow> val option" where
  "convert k s =
     (case k of
        KBool \<Rightarrow> map_option VBool (ParseBool s)
      | KInt \<Rightarrow> map_option VInt (ParseInt s)
      | KString \<Rightarrow> Some (VString s))"

subsection \<open>The fields with an environment tag\<close>

text \<open>
  The fields that carry an \<open>envconfig\<close> tag in the source, in the order of the
  structs in \<open>Config\<close> and of the fields in each struct, each with the name in its
  tag and the type of the field.
\<close>

datatype tagged_field =
    T_DebugTrace
  | T_SoftlayerBlockEnabled
  | T_SoftlayerBlockProviderName
  | T_SoftlayerFileEnabled
  | T_SoftlayerFileProviderName
  | T_SoftlayerTimeout
  | T_SoftlayerVolProvisionTimeout
  | T_SoftlayerRetryInterval
  | T_VPC_Enabled
  | T_VPCTypeEnabled
  | T_VPCAPIGeneration
  | T_APIVersion
  | T_G2VPCAPIGeneration
  | T_G2APIVersion
  | T_VPCTimeout
  | T_MaxRetryAttempt
  | T_MaxRetryGap
  | T_IKS_Enabled
  | T_IKSBlockProviderName

fun env_name :: "tagged_field \<Rightarrow> string" where
  "env_name T_DebugTrace = ''DEBUG_TRACE''"
| "env_name T_SoftlayerBlockEnabled = ''SOFTLAYER_BLOCK_ENABLED''"
| "env_name T_SoftlayerBlockProviderName = ''SOFTLAYER_BLOCK_PROVIDER_NAME''"
| "env_name T_SoftlayerFileEnabled = ''SOFTLAYER_FILE_ENABLED''"
| "env_name T_SoftlayerFileProviderName = ''SOFTLAYER_FILE_PROVIDER_NAME''"
| "env_name T_SoftlayerTimeout = ''SOFTLAYER_API_TIMEOUT''"
| "env_name T_SoftlayerVolProvisionTimeout = ''SOFTLAYER_VOL_PROVISION_TIMEOUT''"
| "env_name T_SoftlayerRetryInterval = ''SOFTLAYER_API_RETRY_INTERVAL''"
| "env_name T_VPC_Enabled = ''VPC_ENABLED''"
| "env_name T_VPCTypeEnabled = ''VPC_TYPE_ENABLED''"
| "env_name T_VPCAPIGeneration = ''VPC_API_GENERATION''"
| "env_name T_APIVersion = ''VPC_API_VERSION''"
| "env_name T_G2VPCAPIGeneration = ''G2_VPC_API_GENERATION''"
| "env_name T_G2APIVersion = ''G2_VPC_API_VERSION''"
| "env_name T_VPCTimeout = ''VPC_API_TIMEOUT''"
| "env_name T_MaxRetryAttempt = ''VPC_RETRY_ATTEMPT''"
| "env_name T_MaxRetryGap = ''VPC_RETRY_INTERVAL''"
| "env_name T_IKS_Enabled = ''IKS_ENABLED''"
| "env_name T_IKSBlockProviderName = ''IKS_BLOCK_PROVIDER_NAME''"

fun field_kind :: "tagged_field \<Rightarrow> kind" where
  "field_kind T_DebugTrace = KBool"
| "field_kind T_SoftlayerBlockEnabled = KBool"
| "field_kind T_SoftlayerBlockProviderName = KString"
| "field_kind T_SoftlayerFileEnabled = KBool"
| "field_kind T_SoftlayerFileProviderName = KString"
| "field_kind T_SoftlayerTimeout = KString"
| "field_kind T_SoftlayerVolProvisionTimeout = KString"
| "field_kind T_SoftlayerRetryInterval = KString"
| "field_kind T_VPC_Enabled = KBool"
| "field_kind T_VPCTypeEnabled = KString"
| "field_kind T_VPCAPIGeneration = KInt"
| "field_kind T_APIVersion = KString"
| "field_kind T_G2VPCAPIGeneration = KInt"
| "field_kind T_G2APIVersion = KString"
| "field_kind T_VPCTimeout = KString"
| "field_kind T_MaxRetryAttempt = KInt"
| "field_kind T_MaxRetryGap = KInt"
| "field_kind T_IKS_Enabled = KBool"
| "field_kind T_IKSBlockProviderName = KString"

definition tagged_fields :: "tagged_field list" where
  "tagged_fields =
     [T_DebugTrace, T_SoftlayerBlockEnabled, T_SoftlayerBlockProviderName,
      T_SoftlayerFileEnabled, T_SoftlayerFileProviderName, T_SoftlayerTimeout,
      T_SoftlayerVolProvisionTimeout, T_SoftlayerRetryInterval, T_VPC_Enabled,
      T_VPCTypeEnabled, T_VPCAPIGeneration, T_APIVersion, T_G2VPCAPIGeneration,
      T_G2APIVersion, T_VPCTimeout, T_MaxRetryAttempt, T_MaxRetryGap,
      T_IKS_Enabled, T_IKSBlockProviderName]"

text \<open>
  Reading a tagged field (through a \<open>nil\<close> pointer it reads as the zero value) and
  writing one: the write goes through the pointer of the field's struct, which is
  allocated when it is \<open>nil\<close>, and a value of another type than the field's leaves
  the field as it is.
\<close>

definition as_bool :: "val \<Rightarrow> bool \<Rightarrow> bool" where
  "as_bool v d = (case v of VBool b \<Rightarrow> b | _ \<Rightarrow> d)"

definition as_int :: "val \<Rightarrow> int \<Rightarrow> int" where
  "as_int v d = (case v of VInt i \<Rightarrow> i | _ \<Rightarrow> d)"

definition as_string :: "val \<Rightarrow> string \<Rightarrow> string" where
  "as_string v d = (case v of VString s \<Rightarrow> s | _ \<Rightarrow> d)"

definition on_Server :: "(ServerConfig \<Rightarrow> ServerConfig) \<Rightarrow> Config \<Rightarrow> Config" where
  "on_Server f c = c\<lparr>Server := Some (f (or_zero ServerConfig_zero (Server c)))\<rparr>"

definition on_Softlayer :: "(SoftlayerConfig \<Rightarrow> SoftlayerConfig) \<Rightarrow> Config \<Rightarrow> Config" where
  "on_Softlayer f c = c\<lparr>Softlayer := Some (f (or_zero SoftlayerConfig_zero (Softlayer c)))\<rparr>"

definition on_VPC :: "(VPCProviderConfig \<Rightarrow> VPCProviderConfig) \<Rightarrow> Config \<Rightarrow> Config" where
  "on_VPC f c = c\<lparr>VPC := Some (f (or_zero VPCProviderConfig_zero (VPC c)))\<rparr>"

definition on_IKS :: "(IKSConfig \<Rightarrow> IKSConfig) \<Rightarrow> Config \<Rightarrow> Config" where
  "on_IKS f c = c\<lparr>IKS := Some (f (or_zero IKSConfig_zero (IKS c)))\<rparr>"


fun put_field :: "tagged_field \<Rightarrow> val \<Rightarrow> Config \<Rightarrow> Config" where
  "put_field T_DebugTrace v =
     on_Server (\<lambda>r. r\<lparr>DebugTrace := as_bool v (DebugTrace r)\<rparr>)"
| "put_field T_SoftlayerBlockEnabled v =
     on_Softlayer (\<lambda>r. r\<lparr>SoftlayerBlockEnabled := as_bool v (SoftlayerBlockEnabled r)\<rparr>)"
| "put_field T_SoftlayerBlockProviderName v =
     on_Softlayer (\<lambda>r. r\<lparr>SoftlayerBlockProviderName := as_string v (SoftlayerBlockProviderName r)\<rparr>)"
| "put_field T_SoftlayerFileEnabled v =
     on_Softlayer (\<lambda>r. r\<lparr>SoftlayerFileEnabled := as_bool v (SoftlayerFileEnabled r)\<rparr>)"
| "put_field T_SoftlayerFileProviderName v =
     on_Softlayer (\<lambda>r. r\<lparr>SoftlayerFileProviderName := as_string v (SoftlayerFileProviderName r)\<rparr>)"
| "put_field T_SoftlayerTimeout v =
     on_Softlayer (\<lambda>r. r\<lparr>SoftlayerTimeout := as_string v (SoftlayerTimeout r)\<rparr>)"
| "put_field T_SoftlayerVolProvisionTimeout v =
     on_Softlayer (\<lambda>r. r\<lparr>SoftlayerVolProvisionTimeout := as_string v (SoftlayerVolProvisionTimeout r)\<rparr>)"
| "put_field T_SoftlayerRetryInterval v =
     on_Softlayer (\<lambda>r. r\<lparr>SoftlayerRetryInterval := as_string v (SoftlayerRetryInterval r)\<rparr>)"
| "put_field T_VPC_Enabled v =
     on_VPC (\<lambda>r. r\<lparr>VPC_Enabled := as_bool v (VPC_Enabled r)\<rparr>)"
| "put_field T_VPCTypeEnabled v =
     on_VPC (\<lambda>r. r\<lparr>VPCTypeEnabled := as_string v (VPCTypeEnabled r)\<rparr>)"
| "put_field T_VPCAPIGeneration v =
     on_VPC (\<lambda>r. r\<lparr>VPCAPIGeneration := as_int v (VPCAPIGeneration r)\<rparr>)"
| "put_field T_APIVersion v =
     on_VPC (\<lambda>r. r\<lparr>APIVersion := as_string v (APIVersion r)\<rparr>)"
| "put_field T_G2VPCAPIGeneration v =
     on_VPC (\<lambda>r. r\<lparr>G2VPCAPIGeneration := as_int v (G2VPCAPIGeneration r)\<rparr>)"
| "put_field T_G2APIVersion v =
     on_VPC (\<lambda>r. r\<lparr>G2APIVersion := as_string v (G2APIVersion r)\<rparr>)"
| "put_field T_VPCTimeout v =
     on_VPC (\<lambda>r. r\<lparr>VPCTimeout := as_string v (VPCTimeout r)\<rparr>)"
| "put_field T_MaxRetryAttempt v =
     on_VPC (\<lambda>r. r\<lparr>MaxRetryAttempt := as_int v (MaxRetryAttempt r)\<rparr>)"
| "put_field T_MaxRetryGap v =
     on_VPC (\<lambda>r. r\<lparr>MaxRetryGap := as_int v (MaxRetryGap r)\<rparr>)"
| "put_field T_IKS_Enabled v =
     on_IKS (\<lambda>r. r\<lparr>IKS_Enabled := as_bool v (IKS_Enabled r)\<rparr>)"
| "put_field T_IKSBlockProviderName v =
     on_IKS (\<lambda>r. r\<lparr>IKSBlockProviderName := as_string v (IKSBlockProviderName r)\<rparr>)"


subsection \<open>Overlaying the environment: \<open>envconfig.Process\<close>\<close>

text \<open>
  Modelled from the spec: \<open>envconfig.Process\<close> belongs to the library
  github.com/kelseyhightower/envconfig, which is not among the sources of the package.
  The spec says that for every field carrying an environment-variable tag, if that
  variable is set in the process environment, its value is parsed to the field's type
  and overwrites the field's current value, field by field, and that a conversion
  failure is returned as an error. The fields are visited in the order of their
  declaration; a variable that is not set leaves its field alone; the first value that
  does not convert ends the pass with the error, its field and the fields after it
  unwritten. The tag \<open>required\<close> of \<open>Server\<close> is on a pointer to a struct, which has
  no variable of its own: the overlay has no other error than a failed conversion.
\<close>

definition overlay_field ::
  "environment \<Rightarrow> tagged_field \<Rightarrow> Config \<Rightarrow> Config \<times> error option" where
  "overlay_field env f c =
     (case LookupEnv env (env_name f) of
        None \<Rightarrow> (c, None)
      | Some s \<Rightarrow>
          (case convert (field_kind f) s of
             None \<Rightarrow> (c, Some (OverlayError (env_name f) s))
           | Some v \<Rightarrow> (put_field f v c, None)))"

fun overlay_fields ::
  "environment \<Rightarrow> tagged_field list \<Rightarrow> Config \<Rightarrow> Config \<times> error option" where
  "overlay_fields env [] c = (c, None)"
| "overlay_fields env (f # fs) c =
     (case overlay_field env f c of
        (c', None) \<Rightarrow> overlay_fields env fs c'
      | (c', Some e) \<Rightarrow> (c', Some e))"

definition Process :: "environment \<Rightarrow> Config \<Rightarrow> Config \<times> error option" where
  "Process env c = overlay_fields env tagged_fields c"

subsection \<open>Loading: \<open>ParseConfig\<close> and \<open>ReadConfig\<close>\<close>

text \<open>
  \<open>ParseConfig\<close> decodes the file into the record, logs the error of the decoder if
  there is one, overlays the environment on the same record, assigning the result to
  the same variable \<open>err\<close>, logs that error if there is one, and returns \<open>err\<close>. The
  record is updated in place in the source; here it is returned with the error and
  the lines logged.
\<close>

definition ParseConfig ::
  "filesystem \<Rightarrow> environment \<Rightarrow> string \<Rightarrow> Config \<Rightarrow> Config \<times> error option \<times> log_entry list" where
  "ParseConfig fs env filePath conf =
     (let (conf1, err1) = DecodeFile fs filePath conf;
          log1 = (case err1 of
                    None \<Rightarrow> []
                  | Some e \<Rightarrow> [LogError ''Failed to parse config file'' e]);
          (conf2, err2) = Process env conf1;
          log2 = (case err2 of
                    None \<Rightarrow> []
                  | Some e \<Rightarrow> [LogError ''Failed to gather environment config variable'' e])
      in (conf2, err2, log1 @ log2))"

text \<open>
  \<open>ReadConfig\<close> takes the default path when the path given is empty, builds a record
  whose only non-nil pointer is \<open>IKS\<close>, logs the path, parses, and returns the
  address of the record (a pointer: \<open>Some\<close>) with the error of \<open>ParseConfig\<close>.
\<close>

definition ReadConfig ::
  "filesystem \<Rightarrow> environment \<Rightarrow> string \<Rightarrow> Config option \<times> error option \<times> log_entry list" where
  "ReadConfig fs env confPath =
     (let confPath = (if confPath = [] then GetDefaultConfPath env else confPath);
          conf = Config_zero\<lparr>IKS := Some IKSConfig_zero\<rparr>;
          log0 = [LogInfo ''parsing conf file'' confPath];
          (conf', err, log1) = ParseConfig fs env confPath conf
      in (Some conf', err, log0 @ log1))"

subsection \<open>Sample inputs\<close>



definition fixture_secret_doc :: toml_doc where
  "fixture_secret_doc =
     \<lparr>server_table = Some (\<lambda>r. r\<lparr>DebugTrace := True\<rparr>), bluemix_table = None,
      softlayer_table = None, vpc_table = None, iks_table = None, api_table = None,
      type_mismatch = None\<rparr>"

definition fixture_secret_files :: filesystem where
  "fixture_secret_files = [(''/tmp/cfg/libconfig.toml'', Toml fixture_secret_doc)]"

definition fixture_secret_env :: environment where
  "fixture_secret_env = [(''SECRET_CONFIG_PATH'', ''/tmp/cfg'')]"


definition fixture_gopath_and_secret :: environment where
  "fixture_gopath_and_secret = [(''GOPATH'', ''/go''), (''SECRET_CONFIG_PATH'', ''/tmp/cfg'')]"

definition fixture_bad_generation :: environment where
  "fixture_bad_generation = [(''VPC_API_GENERATION'', ''notanumber'')]"




section \<open>Properties\<close>

subsection \<open>Reading and writing the tagged fields\<close>

lemmas on_defs = on_Server_def on_Softlayer_def on_VPC_def on_IKS_def





lemma IKS_put: "IKS c \<noteq> None \<Longrightarrow> IKS (put_field f v c) \<noteq> None"
  by (cases f) (simp_all add: on_defs)



lemmas eval_defs =
  Process_def tagged_fields_def overlay_field_def LookupEnv_def convert_def ParseBool_def
  ParseInt_def ParseUint_def digit_of_def on_defs or_zero_def as_bool_def as_int_def
  as_string_def DecodeFile_def decode_doc_def decode_table_def Config_zero_def
  ServerConfig_zero_def SoftlayerConfig_zero_def VPCProviderConfig_zero_def
  IKSConfig_zero_def

subsection \<open>One pass over the tagged fields\<close>





lemma overlay_field_IKS:
  "overlay_field env f c = (c', r) \<Longrightarrow> IKS c \<noteq> None \<Longrightarrow> IKS c' \<noteq> None"
  using IKS_put [of c f] by (auto simp: overlay_field_def split: option.splits)



lemma overlay_fields_IKS:
  "overlay_fields env fs c = (c', r) \<Longrightarrow> IKS c \<noteq> None \<Longrightarrow> IKS c' \<noteq> None"
proof (induction fs arbitrary: c)
  case Nil
  then show ?case by simp
next
  case (Cons f fs)
  obtain c1 r1 where step: "overlay_field env f c = (c1, r1)"
    by (cases "overlay_field env f c")
  with Cons.prems have iks1: "IKS c1 \<noteq> None" by (simp add: overlay_field_IKS)
  show ?case
  proof (cases r1)
    case None
    with Cons.prems step have "overlay_fields env fs c1 = (c', r)" by simp
    then show ?thesis using iks1 by (rule Cons.IH)
  next
    case (Some e)
    with Cons.prems step have "c' = c1" by simp
    with iks1 show ?thesis by simp
  qed
qed






subsection \<open>Paths, decoding and the two steps of a load\<close>

lemma ToUpper_GOPATH: "ToUpper ''GOPATH'' = ''GOPATH''"
  by (simp add: ToUpper_def upper_byte_def)

lemma ToUpper_SECRET_CONFIG_PATH: "ToUpper ''SECRET_CONFIG_PATH'' = ''SECRET_CONFIG_PATH''"
  by (simp add: ToUpper_def upper_byte_def)

lemma srcPath_value:
  "Join [''src'', ''github.com'', ''IBM'', ''ibmcloud-volume-interface''] =
     ''src/github.com/IBM/ibmcloud-volume-interface''"
  by (simp add: Clean_def clean_elem_def)

lemma Clean_not_empty: "Clean path \<noteq> []"
  by (cases path) (simp_all add: Clean_def Let_def)

lemma Join_two_not_empty: "b \<noteq> [] \<Longrightarrow> Join [a, b] \<noteq> []"
  by (simp add: Clean_not_empty)

lemma GetDefaultConfPath_not_empty: "GetDefaultConfPath env \<noteq> []"
  by (simp add: GetDefaultConfPath_def Clean_not_empty)

lemma GetGoPath_Getenv: "GetGoPath env = Getenv env ''GOPATH''"
  by (simp add: GetGoPath_def getEnv_def ToUpper_GOPATH Let_def)

lemma ParseConfig_steps:
  "DecodeFile fs p c = (c1, e1) \<Longrightarrow> Process env c1 = (c2, e2) \<Longrightarrow>
     ParseConfig fs env p c =
       (c2, e2,
        (case e1 of None \<Rightarrow> [] | Some e \<Rightarrow> [LogError ''Failed to parse config file'' e]) @
        (case e2 of None \<Rightarrow> []
         | Some e \<Rightarrow> [LogError ''Failed to gather environment config variable'' e]))"
  by (simp add: ParseConfig_def)

lemma ReadConfig_steps:
  "ParseConfig fs env (if p = [] then GetDefaultConfPath env else p)
     (Config_zero\<lparr>IKS := Some IKSConfig_zero\<rparr>) = (c, e, l) \<Longrightarrow>
   ReadConfig fs env p =
     (Some c, e, LogInfo ''parsing conf file'' (if p = [] then GetDefaultConfPath env else p) # l)"
  by (simp add: ReadConfig_def Let_def)

lemma DecodeFile_IKS:
  "DecodeFile fs p c = (c1, e1) \<Longrightarrow> IKS c \<noteq> None \<Longrightarrow> IKS c1 \<noteq> None"
  by (auto simp: DecodeFile_def decode_doc_def decode_table_def
      split: option.splits file_content.splits)



lemma Process_IKS: "Process env c = (c', r) \<Longrightarrow> IKS c \<noteq> None \<Longrightarrow> IKS c' \<noteq> None"
  unfolding Process_def by (rule overlay_fields_IKS)






lemma GetEtcPath_Getenv:
  "GetEtcPath env =
     Join [Getenv env ''GOPATH'', ''src/github.com/IBM/ibmcloud-volume-interface'', ''etc'']"
  by (simp only: GetEtcPath_def GetGoPath_Getenv srcPath_value Let_def)


subsection \<open>The error of a load when both steps fail\<close>

text \<open>
  Claim C1 says that when the file-decode step and the environment-overlay step both
  fail, the error that the load returns is the decode error. \<open>ParseConfig\<close> assigns
  the result of the overlay to the variable that held the decode error, so the load
  returns the overlay error; the decode error is in the log only. The claim as amended:
  when both steps fail, \<open>ParseConfig\<close> returns the record as the overlay left it with
  the overlay error, after logging the decode error and then the overlay error.
\<close>

theorem ParseConfig_both_fail:
  assumes "DecodeFile fs filePath conf = (conf1, Some e1)"
    and "Process env conf1 = (conf2, Some e2)"
  shows "ParseConfig fs env filePath conf =
           (conf2, Some e2,
            [LogError ''Failed to parse config file'' e1,
             LogError ''Failed to gather environment config variable'' e2])"
  using ParseConfig_steps [OF assms] by simp

text \<open>
  The theorem at a path that names no file, with \<open>VPC_API_GENERATION=notanumber\<close> in
  the environment.
\<close>

theorem ParseConfig_both_fail_witness:
  "DecodeFile [] ''/etc/libconfig.toml'' (Config_zero\<lparr>IKS := Some IKSConfig_zero\<rparr>) =
     (Config_zero\<lparr>IKS := Some IKSConfig_zero\<rparr>, Some (DecodeError ''no such file or directory'')) \<and>
   Process fixture_bad_generation (Config_zero\<lparr>IKS := Some IKSConfig_zero\<rparr>) =
     (Config_zero\<lparr>IKS := Some IKSConfig_zero\<rparr>,
      Some (OverlayError ''VPC_API_GENERATION'' ''notanumber'')) \<and>
   ParseConfig [] fixture_bad_generation ''/etc/libconfig.toml''
       (Config_zero\<lparr>IKS := Some IKSConfig_zero\<rparr>) =
     (Config_zero\<lparr>IKS := Some IKSConfig_zero\<rparr>,
      Some (OverlayError ''VPC_API_GENERATION'' ''notanumber''),
      [LogError ''Failed to parse config file'' (DecodeError ''no such file or directory''),
       LogError ''Failed to gather environment config variable''
         (OverlayError ''VPC_API_GENERATION'' ''notanumber'')])"
proof -
  have d: "DecodeFile [] ''/etc/libconfig.toml'' (Config_zero\<lparr>IKS := Some IKSConfig_zero\<rparr>) =
     (Config_zero\<lparr>IKS := Some IKSConfig_zero\<rparr>, Some (DecodeError ''no such file or directory''))"
    by (simp add: DecodeFile_def)
  have p: "Process fixture_bad_generation (Config_zero\<lparr>IKS := Some IKSConfig_zero\<rparr>) =
     (Config_zero\<lparr>IKS := Some IKSConfig_zero\<rparr>,
      Some (OverlayError ''VPC_API_GENERATION'' ''notanumber''))"
    by (simp add: eval_defs fixture_bad_generation_def)
  show ?thesis using d p ParseConfig_both_fail [OF d p] by simp
qed

text \<open>
  Claim C1 as stated fails on that input: both steps fail, and the error returned is
  not the decode error.
\<close>

theorem decode_error_priority_counterexample:
  "DecodeFile [] ''/etc/libconfig.toml'' (Config_zero\<lparr>IKS := Some IKSConfig_zero\<rparr>) =
     (Config_zero\<lparr>IKS := Some IKSConfig_zero\<rparr>, Some (DecodeError ''no such file or directory'')) \<and>
   snd (Process fixture_bad_generation (Config_zero\<lparr>IKS := Some IKSConfig_zero\<rparr>)) =
     Some (OverlayError ''VPC_API_GENERATION'' ''notanumber'') \<and>
   fst (snd (ParseConfig [] fixture_bad_generation ''/etc/libconfig.toml''
       (Config_zero\<lparr>IKS := Some IKSConfig_zero\<rparr>))) \<noteq>
     Some (DecodeError ''no such file or directory'')"
  by (simp add: ParseConfig_def eval_defs fixture_bad_generation_def)

subsection \<open>A load from a path without a document\<close>




subsection \<open>The path that \<open>ReadConfig\<close> takes for an empty argument\<close>

text \<open>
  Claim C3 says that \<open>ReadConfig\<close> with an empty path decodes the file
  \<open>libconfig.toml\<close> of the directory in \<open>SECRET_CONFIG_PATH\<close> when that variable is
  set. \<open>ReadConfig\<close> calls \<open>GetDefaultConfPath\<close>, which reads \<open>GOPATH\<close> only; the
  variable \<open>SECRET_CONFIG_PATH\<close> is read by \<open>GetConfPath\<close> and \<open>GetConfPathDir\<close>,
  which \<open>ReadConfig\<close> does not call. The claim as amended: \<open>ReadConfig\<close> with an
  empty path loads as it does with the default path, the join of the value of
  \<open>GOPATH\<close> (empty when not set), the fixed directories and \<open>libconfig.toml\<close>,
  whatever \<open>SECRET_CONFIG_PATH\<close> is.
\<close>

theorem ReadConfig_default_path:
  "ReadConfig fs env [] = ReadConfig fs env (GetDefaultConfPath env) \<and>
   GetDefaultConfPath env =
     Join [Join [Getenv env ''GOPATH'', ''src/github.com/IBM/ibmcloud-volume-interface'',
                 ''etc''],
           ''libconfig.toml'']"
proof
  show "ReadConfig fs env [] = ReadConfig fs env (GetDefaultConfPath env)"
    by (simp add: ReadConfig_def GetDefaultConfPath_not_empty)
  show "GetDefaultConfPath env =
     Join [Join [Getenv env ''GOPATH'', ''src/github.com/IBM/ibmcloud-volume-interface'',
                 ''etc''],
           ''libconfig.toml'']"
    by (simp only: GetDefaultConfPath_def GetEtcPath_Getenv)
qed

text \<open>
  Claim C3 as stated fails with \<open>SECRET_CONFIG_PATH=/tmp/cfg\<close>, \<open>GOPATH\<close> not set
  and a file \<open>/tmp/cfg/libconfig.toml\<close> that sets \<open>debug_trace = true\<close>: the load
  with an empty path logs the default path, finds no file there and returns the
  initial record, where the load of \<open>/tmp/cfg/libconfig.toml\<close> returns the flag set.
\<close>

theorem secret_path_ignored_counterexample:
  "Getenv fixture_secret_env ''SECRET_CONFIG_PATH'' = ''/tmp/cfg'' \<and>
   Join [''/tmp/cfg'', ''libconfig.toml''] = ''/tmp/cfg/libconfig.toml'' \<and>
   ReadConfig fixture_secret_files fixture_secret_env [] =
     (Some (Config_zero\<lparr>IKS := Some IKSConfig_zero\<rparr>), None,
      [LogInfo ''parsing conf file''
         ''src/github.com/IBM/ibmcloud-volume-interface/etc/libconfig.toml'',
       LogError ''Failed to parse config file'' (DecodeError ''no such file or directory'')]) \<and>
   ReadConfig fixture_secret_files fixture_secret_env ''/tmp/cfg/libconfig.toml'' =
     (Some (Config_zero\<lparr>Server := Some \<lparr>DebugTrace = True\<rparr>, IKS := Some IKSConfig_zero\<rparr>),
      None,
      [LogInfo ''parsing conf file'' ''/tmp/cfg/libconfig.toml''])"
proof -
  have env: "Getenv fixture_secret_env ''SECRET_CONFIG_PATH'' = ''/tmp/cfg''"
    by (simp add: Getenv_def LookupEnv_def fixture_secret_env_def)
  have join: "Join [''/tmp/cfg'', ''libconfig.toml''] = ''/tmp/cfg/libconfig.toml''"
    by (simp add: Clean_def clean_elem_def)
  have gopath: "Getenv fixture_secret_env ''GOPATH'' = []"
    by (simp add: Getenv_def LookupEnv_def fixture_secret_env_def)
  have path: "GetDefaultConfPath fixture_secret_env =
      ''src/github.com/IBM/ibmcloud-volume-interface/etc/libconfig.toml''"
    by (simp add: GetDefaultConfPath_def GetEtcPath_Getenv gopath Clean_def clean_elem_def)
  have overlay: "\<And>c. Process fixture_secret_env c = (c, None)"
    by (simp add: Process_def tagged_fields_def overlay_field_def LookupEnv_def
        fixture_secret_env_def)
  have r1: "ReadConfig fixture_secret_files fixture_secret_env [] =
     (Some (Config_zero\<lparr>IKS := Some IKSConfig_zero\<rparr>), None,
      [LogInfo ''parsing conf file''
         ''src/github.com/IBM/ibmcloud-volume-interface/etc/libconfig.toml'',
       LogError ''Failed to parse config file'' (DecodeError ''no such file or directory'')])"
    by (simp add: ReadConfig_def ParseConfig_def path overlay DecodeFile_def
        fixture_secret_files_def)
  have r2: "ReadConfig fixture_secret_files fixture_secret_env ''/tmp/cfg/libconfig.toml'' =
     (Some (Config_zero\<lparr>Server := Some \<lparr>DebugTrace = True\<rparr>, IKS := Some IKSConfig_zero\<rparr>),
      None,
      [LogInfo ''parsing conf file'' ''/tmp/cfg/libconfig.toml''])"
    by (simp add: ReadConfig_def ParseConfig_def overlay DecodeFile_def decode_doc_def
        decode_table_def or_zero_def fixture_secret_files_def fixture_secret_doc_def
        Config_zero_def ServerConfig_zero_def)
  from env join r1 r2 show ?thesis by simp
qed

subsection \<open>The environment over the file\<close>




subsection \<open>A load whose overlay fails\<close>




subsection \<open>What \<open>ReadConfig\<close> returns is never \<open>nil\<close>\<close>

lemma ReadConfig_result:
  "\<exists>conf1 err1 conf2 err2 log.
     DecodeFile fs (if confPath = [] then GetDefaultConfPath env else confPath)
       (Config_zero\<lparr>IKS := Some IKSConfig_zero\<rparr>) = (conf1, err1) \<and>
     Process env conf1 = (conf2, err2) \<and>
     ReadConfig fs env confPath = (Some conf2, err2, log)"
proof -
  let ?p = "if confPath = [] then GetDefaultConfPath env else confPath"
  let ?c0 = "Config_zero\<lparr>IKS := Some IKSConfig_zero\<rparr>"
  obtain conf1 err1 where d: "DecodeFile fs ?p ?c0 = (conf1, err1)"
    by (cases "DecodeFile fs ?p ?c0")
  obtain conf2 err2 where p: "Process env conf1 = (conf2, err2)"
    by (cases "Process env conf1")
  from ReadConfig_steps [OF ParseConfig_steps [OF d p]] d p show ?thesis by blast
qed

text \<open>
  Claim C6: for every path, file system and environment, the reference that
  \<open>ReadConfig\<close> returns is not \<open>nil\<close>, with or without an error.
\<close>

theorem ReadConfig_never_nil: "fst (ReadConfig fs env confPath) \<noteq> None"
  using ReadConfig_result [of fs confPath env] by auto

text \<open>
  Claim C7: for every path, file system and environment, the \<open>IKS\<close> pointer of the
  record that \<open>ReadConfig\<close> returns is not \<open>nil\<close>: it is allocated before the two
  steps, and neither step resets a pointer.
\<close>

theorem ReadConfig_IKS_never_nil:
  "\<exists>conf. fst (ReadConfig fs env confPath) = Some conf \<and> IKS conf \<noteq> None"
proof -
  from ReadConfig_result [of fs confPath env] obtain conf1 err1 conf2 err2 log where
    d: "DecodeFile fs (if confPath = [] then GetDefaultConfPath env else confPath)
          (Config_zero\<lparr>IKS := Some IKSConfig_zero\<rparr>) = (conf1, err1)" and
    p: "Process env conf1 = (conf2, err2)" and
    r: "ReadConfig fs env confPath = (Some conf2, err2, log)"
    by blast
  from d have "IKS conf1 \<noteq> None" by (rule DecodeFile_IKS) simp
  with p have "IKS conf2 \<noteq> None" by (rule Process_IKS)
  with r show ?thesis by simp
qed

subsection \<open>The paths resolved from the environment\<close>

text \<open>
  Claim C8: in every environment where \<open>SECRET_CONFIG_PATH\<close> is \<open>/tmp/cfg\<close>,
  \<open>GetConfPath\<close> returns \<open>/tmp/cfg/libconfig.toml\<close>, whatever \<open>GOPATH\<close> is.
\<close>

theorem GetConfPath_secret_directory:
  assumes "LookupEnv env ''SECRET_CONFIG_PATH'' = Some ''/tmp/cfg''"
  shows "GetConfPath env = ''/tmp/cfg/libconfig.toml''"
proof -
  from assms have "getEnv env ''SECRET_CONFIG_PATH'' = ''/tmp/cfg''"
    by (simp add: getEnv_def Getenv_def ToUpper_SECRET_CONFIG_PATH)
  moreover have "Join [''/tmp/cfg'', ''libconfig.toml''] = ''/tmp/cfg/libconfig.toml''"
    by (simp add: Clean_def clean_elem_def)
  ultimately show ?thesis by (simp add: GetConfPath_def)
qed

text \<open>
  The theorem in an environment that also sets \<open>GOPATH\<close>.
\<close>

theorem GetConfPath_secret_directory_witness:
  "LookupEnv fixture_gopath_and_secret ''SECRET_CONFIG_PATH'' = Some ''/tmp/cfg'' \<and>
   LookupEnv fixture_gopath_and_secret ''GOPATH'' = Some ''/go'' \<and>
   GetConfPath fixture_gopath_and_secret = ''/tmp/cfg/libconfig.toml''"
proof -
  have h: "LookupEnv fixture_gopath_and_secret ''SECRET_CONFIG_PATH'' = Some ''/tmp/cfg''"
    by (simp add: LookupEnv_def fixture_gopath_and_secret_def)
  have g: "LookupEnv fixture_gopath_and_secret ''GOPATH'' = Some ''/go''"
    by (simp add: LookupEnv_def fixture_gopath_and_secret_def)
  from h g GetConfPath_secret_directory [OF h] show ?thesis by simp
qed

subsection \<open>A load with no file and no variable\<close>



subsection \<open>The default paths without \<open>GOPATH\<close>\<close>

text \<open>
  Claim C10: when \<open>GOPATH\<close> is not set, or is empty, \<open>GetGoPath\<close> is empty, the join
  drops it, and \<open>GetEtcPath\<close> and \<open>GetDefaultConfPath\<close> return the relative paths
  \<open>src/github.com/IBM/ibmcloud-volume-interface/etc\<close> and
  \<open>src/github.com/IBM/ibmcloud-volume-interface/etc/libconfig.toml\<close>; the functions
  return a path, never an error.
\<close>

theorem default_paths_without_GOPATH:
  assumes "LookupEnv env ''GOPATH'' = None \<or> LookupEnv env ''GOPATH'' = Some []"
  shows "GetGoPath env = [] \<and>
         GetEtcPath env = ''src/github.com/IBM/ibmcloud-volume-interface/etc'' \<and>
         GetDefaultConfPath env =
           ''src/github.com/IBM/ibmcloud-volume-interface/etc/libconfig.toml''"
proof -
  from assms have gopath: "Getenv env ''GOPATH'' = []"
    by (auto simp: Getenv_def)
  then have etc: "GetEtcPath env = ''src/github.com/IBM/ibmcloud-volume-interface/etc''"
    by (simp add: GetEtcPath_Getenv Clean_def clean_elem_def)
  then have "GetDefaultConfPath env =
      ''src/github.com/IBM/ibmcloud-volume-interface/etc/libconfig.toml''"
    by (simp add: GetDefaultConfPath_def Clean_def clean_elem_def)
  with gopath etc show ?thesis by (simp add: GetGoPath_Getenv)
qed

text \<open>
  The theorem in an environment that does not set \<open>GOPATH\<close>.
\<close>

theorem default_paths_without_GOPATH_witness:
  "LookupEnv fixture_secret_env ''GOPATH'' = None \<and>
   GetEtcPath fixture_secret_env = ''src/github.com/IBM/ibmcloud-volume-interface/etc'' \<and>
   GetDefaultConfPath fixture_secret_env =
     ''src/github.com/IBM/ibmcloud-volume-interface/etc/libconfig.toml''"
proof -
  have h: "LookupEnv fixture_secret_env ''GOPATH'' = None"
    by (simp add: LookupEnv_def fixture_secret_env_def)
  then have "LookupEnv fixture_secret_env ''GOPATH'' = None \<or>
      LookupEnv fixture_secret_env ''GOPATH'' = Some []"
    by simp
  from h default_paths_without_GOPATH [OF this] show ?thesis by simp
qed

end
